theory Spec2Isabelle
  imports Main "HOL-Library.Multiset"
begin

chapter \<open>A shallow embedding of the Lighthouse API client and its migration tool\<close>

text \<open>
  Strings are Go strings: byte sequences (\<open>char list\<close>). Go's \<open>int\<close> is taken on a
  64-bit platform and written as \<open>int\<close>; the places where the 64-bit range decides an
  outcome (\<open>strconv.ParseInt\<close>) write the range out. A Go pointer that may be nil is an
  \<open>option\<close>; dereferencing nil is the error value \<open>NilPointerDereference\<close>.
\<close>

section \<open>Errors, time stamps, the transport\<close>

datatype error =
    OtherError string
  | NoSuch string string
  | InvalidTicketNumber string
  | NilPointerDereference

text \<open>
  \<open>NoSuch kind name\<close> is \<open>fmt.Errorf("no such <kind> %q", name)\<close>,
  \<open>InvalidTicketNumber s\<close> is \<open>fmt.Errorf("invalid ticket number %q", s)\<close>, and
  \<open>OtherError\<close> is any error made outside the modelled code (transport, status check,
  JSON, URL parsing).
\<close>

datatype Time = Time (instant: int) (zone: int)

definition Equal :: "Time \<Rightarrow> Time \<Rightarrow> bool" where
  "Equal t u = (instant t = instant u)"

record Response =
  StatusCode :: int
  Body :: string

definition StatusOK :: int where
  "StatusOK = 200"

section \<open>strconv\<close>

definition isDigit :: "char \<Rightarrow> bool" where
  "isDigit c = (48 \<le> (of_char c :: nat) \<and> (of_char c :: nat) \<le> 57)"

datatype NumError = ErrSyntax | ErrRange

text \<open>
  \<open>strconv.ParseUint(s, 10, 64)\<close>: the scan over the bytes, with the accumulator \<open>n\<close>.
  The cutoff is \<open>maxUint64 / 10 + 1\<close>; the sum \<open>n * 10 + d\<close> wraps at \<open>2 ^ 64\<close>.
\<close>

fun ParseUint_loop :: "nat \<Rightarrow> string \<Rightarrow> NumError + nat" where
  "ParseUint_loop n [] = Inr n"
| "ParseUint_loop n (c # cs) =
     (if \<not> isDigit c then Inl ErrSyntax
      else if n \<ge> (2 ^ 64 - 1) div 10 + 1 then Inl ErrRange
      else let n1 = n * 10 + (of_char c - 48)
           in if n1 \<ge> 2 ^ 64 then Inl ErrRange else ParseUint_loop n1 cs)"

definition ParseUint :: "string \<Rightarrow> NumError + nat" where
  "ParseUint s = (if s = [] then Inl ErrSyntax else ParseUint_loop 0 s)"

text \<open>
  \<open>strconv.ParseInt(s, 10, 64)\<close>: an optional sign, then \<open>ParseUint\<close>, then the check
  against \<open>2 ^ 63\<close>.
\<close>

definition ParseInt :: "string \<Rightarrow> NumError + int" where
  "ParseInt s =
     (case s of
        [] \<Rightarrow> Inl ErrSyntax
      | c # cs \<Rightarrow>
          (let neg = (c = CHR ''-'');
               s1 = (if c = CHR ''+'' \<or> c = CHR ''-'' then cs else s)
           in case ParseUint s1 of
                Inl e \<Rightarrow> Inl e
              | Inr un \<Rightarrow>
                  if \<not> neg \<and> un \<ge> 2 ^ 63 then Inl ErrRange
                  else if neg \<and> un > 2 ^ 63 then Inl ErrRange
                  else Inr (if neg then - int un else int un)))"

fun utoa :: "nat \<Rightarrow> string" where
  "utoa n = (if n < 10 then [char_of (48 + n)] else utoa (n div 10) @ [char_of (48 + n mod 10)])"

declare utoa.simps [simp del]

definition Itoa :: "int \<Rightarrow> string" where
  "Itoa i = (if i < 0 then CHR ''-'' # utoa (nat (- i)) else utoa (nat i))"

definition HasPrefix :: "string \<Rightarrow> string \<Rightarrow> bool" where
  "HasPrefix s p = (take (length p) s = p)"

section \<open>Package lighthouse (not part of the sources) and the Go libraries\<close>

text \<open>
  The root package \<open>lighthouse\<close> is not among the sources. Its \<open>Service\<close> (the base
  path and the \<open>RoundTrip\<close> method) and its functions \<open>CheckResponse\<close> and \<open>ID\<close> are
  parameters of the model, gathered in one record; every theorem below holds for all of
  their behaviours. \<open>RoundTrip\<close> takes the method, the path and the request body
  (\<open>None\<close> for a nil reader); \<open>CheckResponse\<close> returns \<open>None\<close> for a nil error.
\<close>

record lighthouse_Service =
  BasePath :: string
  RoundTrip :: "string \<Rightarrow> string \<Rightarrow> string option \<Rightarrow> error + Response"
  CheckResponse :: "Response \<Rightarrow> int \<Rightarrow> error option"
  lighthouse_ID :: "string \<Rightarrow> error + int"

text \<open>Every resource package declares the same \<open>Service\<close> struct.\<close>

record Service =
  basePath :: string
  s :: lighthouse_Service

section \<open>Package tickets: types\<close>

record Tag =
  ID :: int
  Name :: string

record TagResponse =
  Tag :: "Tag option"

record Attachment =
  AttachmentFileProcessing :: bool
  Code :: string
  ContentType :: string
  CreatedAt :: "Time option"
  Filename :: string
  Height :: int
  ID :: int
  ProjectID :: int
  Size :: int
  UploaderID :: int
  Width :: int
  URL :: string

record AttachmentResponse =
  Attachment :: "Attachment option"

record AlphabeticalTag =
  Tag :: string
  Count :: int

record DiffableAttributes =
  State :: string
  Title :: string
  AssignedUser :: int
  Milestone :: int
  Tag :: string

record TicketVersion =
  AssignedUserID :: int
  AttachmentsCount :: int
  Body :: string
  BodyHTML :: string
  Closed :: bool
  CreatedAt :: "Time option"
  CreatorID :: int
  DiffableAttributes :: "DiffableAttributes option"
  Importance :: int
  MilestoneID :: int
  MilestoneOrder :: int
  Number :: int
  Permalink :: string
  ProjectID :: int
  RawData :: string
  Spam :: bool
  State :: string
  Tag :: string
  Title :: string
  UpdatedAt :: "Time option"
  UserID :: int
  Version :: int
  WatchersIDs :: "int list"
  UserName :: string
  CreatorName :: string
  URL :: string
  Priority :: int
  StateColor :: string

record Ticket =
  AssignedUserID :: int
  AttachmentsCount :: int
  Body :: string
  BodyHTML :: string
  Closed :: bool
  CreatedAt :: "Time option"
  CreatorID :: int
  Importance :: int
  MilestoneDueOn :: "Time option"
  MilestoneID :: int
  MilestoneOrder :: int
  Number :: int
  Permalink :: string
  ProjectID :: int
  RawData :: string
  Spam :: bool
  State :: string
  Tag :: string
  Title :: string
  UpdatedAt :: "Time option"
  UserID :: int
  Version :: int
  WatchersIDs :: "int list"
  UserName :: string
  CreatorName :: string
  AssignedUserName :: string
  URL :: string
  MilestoneTitle :: string
  Priority :: int
  ImportanceName :: string
  OriginalBody :: string
  LatestBody :: string
  OriginalBodyHTML :: string
  StateColor :: string
  Tags :: "TagResponse option list"
  AlphabeticalTags :: "AlphabeticalTag option list"
  Versions :: "TicketVersion option list"
  Attachments :: "AttachmentResponse option list"

type_synonym Tickets = "Ticket option list"

record TicketCreate =
  Title :: string
  Body :: string
  State :: string
  AssignedUserID :: int
  MilestoneID :: int
  Tag :: string
  NotifyAll :: "bool option"
  MultipleWatchers :: "int list"

text \<open>\<open>TicketUpdate\<close> embeds \<open>*Ticket\<close>: the embedded pointer is the field \<open>Ticket\<close>.\<close>

record TicketUpdate =
  Ticket :: "Ticket option"
  NotifyAll :: "bool option"
  MultipleWatchers :: "int list"

text \<open>The field \<open>Ticket interface{}\<close> of \<open>ticketRequest\<close> holds one of the two views.\<close>

datatype ticket_view = TicketCreate_view TicketCreate | TicketUpdate_view TicketUpdate

record ticketRequest =
  Ticket :: ticket_view

record ticketResponse =
  Ticket :: "Ticket option"

record ticketsResponse =
  Tickets :: "ticketResponse option list"

record tickets_ListOptions =
  Query :: string
  Limit :: int
  Page :: int

section \<open>Package bins: types\<close>

record Bin =
  Default :: bool
  ID :: int
  Name :: string
  Position :: int
  ProjectID :: int
  Query :: string
  Shared :: bool
  TicketsCount :: int
  UpdatedAt :: "Time option"
  UserID :: int
  Global :: bool

type_synonym Bins = "Bin option list"

record BinCreate =
  Default :: bool
  Name :: string
  Query :: string

record BinUpdate =
  Default :: bool
  Name :: string
  Query :: string

datatype bin_view = BinCreate_view BinCreate | BinUpdate_view BinUpdate

record binRequest =
  Bin :: bin_view

record binResponse =
  Bin :: "Bin option"

record binsResponse =
  Bins :: "binResponse option list"

section \<open>Package projects: types\<close>

record Todos =
  Projects :: bool
  Tickets :: bool
  Milestones :: bool

type_synonym StatesList = "string list"

record User =
  ID :: int
  Job :: string
  Name :: string
  Website :: string
  AvatarURL :: string

record Membership =
  ID :: int
  UserID :: int
  User :: "User option"
  Account :: string

type_synonym Memberships = "Membership option list"

record Project =
  Archived :: bool
  ClosedStates :: string
  CreatedAt :: "Time option"
  DefaultAssignedUserID :: int
  DefaultMilestoneID :: int
  DefaultTicketText :: string
  Description :: string
  DescriptionHTML :: string
  EnablePoints :: bool
  Hidden :: bool
  ID :: int
  License :: string
  Name :: string
  OpenStates :: string
  OpenTicketsCount :: int
  OssReadonly :: bool
  Permalink :: string
  PointsScale :: string
  Public :: bool
  SendChangesetsToEvents :: bool
  TodosCompleted :: Todos
  UpdatedAt :: string
  OpenStatesList :: StatesList
  ClosedStatesList :: StatesList

type_synonym Projects = "Project option list"

record ProjectCreate =
  Archived :: bool
  Name :: string
  Public :: bool

record ProjectUpdate =
  Archived :: bool
  Name :: string
  Public :: bool

datatype project_view = ProjectCreate_view ProjectCreate | ProjectUpdate_view ProjectUpdate

record projectRequest =
  Project :: project_view

record projectResponse =
  Project :: "Project option"

record projectsResponse =
  Projects :: "projectResponse option list"

section \<open>Package messages: types\<close>

record Comment =
  AllAttachmentsCount :: int
  AttachmentsCount :: int
  Body :: string
  BodyHTML :: string
  CommentsCount :: int
  CreatedAt :: "Time option"
  ID :: int
  Integer :: int
  MilestoneID :: int
  ParentID :: int
  Permalink :: string
  ProjectID :: int
  Title :: string
  Token :: string
  UpdatedAt :: "Time option"
  UserID :: int
  UserName :: string
  URL :: string

record Message =
  AllAttachmentsCount :: int
  AttachmentsCount :: int
  Body :: string
  BodyHTML :: string
  CommentsCount :: int
  CreatedAt :: "Time option"
  ID :: int
  Integer :: int
  MilestoneID :: int
  ParentID :: int
  Permalink :: string
  ProjectID :: int
  Title :: string
  Token :: string
  UpdatedAt :: "Time option"
  UserID :: int
  UserName :: string
  URL :: string
  Comments :: "Comment option list"

type_synonym Messages = "Message option list"

record MessageCreate =
  Body :: string
  Title :: string

record MessageUpdate =
  Body :: string
  Title :: string

datatype message_view = MessageCreate_view MessageCreate | MessageUpdate_view MessageUpdate

record messageRequest =
  Message :: message_view

record messageResponse =
  Message :: "Message option"

record messagesResponse =
  Messages :: "messageResponse option list"

section \<open>Package milestones: types\<close>

record Milestone =
  AttachmentsCount :: int
  CompletedAt :: "Time option"
  CreatedAt :: "Time option"
  DueOn :: "Time option"
  Goals :: string
  GoalsHTML :: string
  ID :: int
  MaxPoints :: int
  OpenTicketsCount :: int
  Permalink :: string
  PointsClosed :: int
  PointsOpen :: int
  Position :: int
  ProjectID :: int
  TicketsCount :: int
  Title :: string
  UpdatedAt :: "Time option"
  URL :: string
  UserName :: string

type_synonym Milestones = "Milestone option list"

record MilestoneCreate =
  Goals :: string
  Title :: string
  DueOn :: "Time option"

record MilestoneUpdate =
  Goals :: string
  Title :: string
  DueOn :: "Time option"

datatype milestone_view =
  MilestoneCreate_view MilestoneCreate | MilestoneUpdate_view MilestoneUpdate

record milestoneRequest =
  Milestone :: milestone_view

record milestoneResponse =
  Milestone :: "Milestone option"

record milestonesResponse =
  Milestones :: "milestoneResponse option list"

record milestones_ListOptions =
  Page :: int

section \<open>Zero values\<close>

text \<open>The Go zero value \<open>T{}\<close> of the structs that the code or the examples build.\<close>

definition Bin_zero :: Bin where
  "Bin_zero =
     \<lparr>Bin.Default = False, Bin.ID = 0, Bin.Name = [], Bin.Position = 0,
      Bin.ProjectID = 0, Bin.Query = [], Bin.Shared = False, Bin.TicketsCount = 0,
      Bin.UpdatedAt = None, Bin.UserID = 0, Bin.Global = False\<rparr>"

definition Project_zero :: Project where
  "Project_zero =
     \<lparr>Project.Archived = False, Project.ClosedStates = [], Project.CreatedAt = None,
      Project.DefaultAssignedUserID = 0, Project.DefaultMilestoneID = 0,
      Project.DefaultTicketText = [], Project.Description = [],
      Project.DescriptionHTML = [], Project.EnablePoints = False, Project.Hidden = False,
      Project.ID = 0, Project.License = [], Project.Name = [], Project.OpenStates = [],
      Project.OpenTicketsCount = 0, Project.OssReadonly = False, Project.Permalink = [],
      Project.PointsScale = [], Project.Public = False,
      Project.SendChangesetsToEvents = False,
      Project.TodosCompleted =
        \<lparr>Todos.Projects = False, Todos.Tickets = False, Todos.Milestones = False\<rparr>,
      Project.UpdatedAt = [], Project.OpenStatesList = [],
      Project.ClosedStatesList = []\<rparr>"

definition Message_zero :: Message where
  "Message_zero =
     \<lparr>Message.AllAttachmentsCount = 0, Message.AttachmentsCount = 0,
      Message.Body = [], Message.BodyHTML = [], Message.CommentsCount = 0,
      Message.CreatedAt = None, Message.ID = 0, Message.Integer = 0,
      Message.MilestoneID = 0, Message.ParentID = 0, Message.Permalink = [],
      Message.ProjectID = 0, Message.Title = [], Message.Token = [],
      Message.UpdatedAt = None, Message.UserID = 0, Message.UserName = [],
      Message.URL = [], Message.Comments = []\<rparr>"

definition Milestone_zero :: Milestone where
  "Milestone_zero =
     \<lparr>Milestone.AttachmentsCount = 0, Milestone.CompletedAt = None,
      Milestone.CreatedAt = None, Milestone.DueOn = None, Milestone.Goals = [],
      Milestone.GoalsHTML = [], Milestone.ID = 0, Milestone.MaxPoints = 0,
      Milestone.OpenTicketsCount = 0, Milestone.Permalink = [], Milestone.PointsClosed = 0,
      Milestone.PointsOpen = 0, Milestone.Position = 0, Milestone.ProjectID = 0,
      Milestone.TicketsCount = 0, Milestone.Title = [], Milestone.UpdatedAt = None,
      Milestone.URL = [], Milestone.UserName = []\<rparr>"

definition TicketVersion_zero :: TicketVersion where
  "TicketVersion_zero =
     \<lparr>TicketVersion.AssignedUserID = 0, TicketVersion.AttachmentsCount = 0,
      TicketVersion.Body = [], TicketVersion.BodyHTML = [], TicketVersion.Closed = False,
      TicketVersion.CreatedAt = None, TicketVersion.CreatorID = 0,
      TicketVersion.DiffableAttributes = None, TicketVersion.Importance = 0,
      TicketVersion.MilestoneID = 0, TicketVersion.MilestoneOrder = 0,
      TicketVersion.Number = 0, TicketVersion.Permalink = [], TicketVersion.ProjectID = 0,
      TicketVersion.RawData = [], TicketVersion.Spam = False, TicketVersion.State = [],
      TicketVersion.Tag = [], TicketVersion.Title = [], TicketVersion.UpdatedAt = None,
      TicketVersion.UserID = 0, TicketVersion.Version = 0, TicketVersion.WatchersIDs = [],
      TicketVersion.UserName = [], TicketVersion.CreatorName = [], TicketVersion.URL = [],
      TicketVersion.Priority = 0, TicketVersion.StateColor = []\<rparr>"

definition Ticket_zero :: Ticket where
  "Ticket_zero =
     \<lparr>Ticket.AssignedUserID = 0, Ticket.AttachmentsCount = 0, Ticket.Body = [],
      Ticket.BodyHTML = [], Ticket.Closed = False, Ticket.CreatedAt = None,
      Ticket.CreatorID = 0, Ticket.Importance = 0, Ticket.MilestoneDueOn = None,
      Ticket.MilestoneID = 0, Ticket.MilestoneOrder = 0, Ticket.Number = 0,
      Ticket.Permalink = [], Ticket.ProjectID = 0, Ticket.RawData = [],
      Ticket.Spam = False, Ticket.State = [], Ticket.Tag = [], Ticket.Title = [],
      Ticket.UpdatedAt = None, Ticket.UserID = 0, Ticket.Version = 0,
      Ticket.WatchersIDs = [], Ticket.UserName = [], Ticket.CreatorName = [],
      Ticket.AssignedUserName = [], Ticket.URL = [], Ticket.MilestoneTitle = [],
      Ticket.Priority = 0, Ticket.ImportanceName = [], Ticket.OriginalBody = [],
      Ticket.LatestBody = [], Ticket.OriginalBodyHTML = [], Ticket.StateColor = [],
      Ticket.Tags = [], Ticket.AlphabeticalTags = [], Ticket.Versions = [],
      Ticket.Attachments = []\<rparr>"

definition User_zero :: User where
  "User_zero =
     \<lparr>User.ID = 0, User.Job = [], User.Name = [], User.Website = [],
      User.AvatarURL = []\<rparr>"

definition Attachment_zero :: Attachment where
  "Attachment_zero =
     \<lparr>Attachment.AttachmentFileProcessing = False, Attachment.Code = [],
      Attachment.ContentType = [], Attachment.CreatedAt = None, Attachment.Filename = [],
      Attachment.Height = 0, Attachment.ID = 0, Attachment.ProjectID = 0,
      Attachment.Size = 0, Attachment.UploaderID = 0, Attachment.Width = 0,
      Attachment.URL = []\<rparr>"

definition tickets_ListOptions_zero :: tickets_ListOptions where
  "tickets_ListOptions_zero =
     \<lparr>tickets_ListOptions.Query = [], tickets_ListOptions.Limit = 0,
      tickets_ListOptions.Page = 0\<rparr>"

section \<open>The Go libraries used by the packages\<close>

text \<open>
  \<open>encoding/json\<close> and \<open>net/url\<close> are parameters too: an encoder per request type, a
  decoder per response type (from the response body to the decoded struct), and
  \<open>url_with_query path values\<close> for the three steps \<open>url.Parse(path)\<close>,
  \<open>u.RawQuery = values.Encode()\<close>, \<open>u.String()\<close>.
\<close>

record golib =
  url_with_query :: "string \<Rightarrow> (string \<times> string) list \<Rightarrow> error + string"
  encode_binRequest :: "binRequest \<Rightarrow> error + string"
  decode_binResponse :: "string \<Rightarrow> error + binResponse"
  decode_binsResponse :: "string \<Rightarrow> error + binsResponse"
  encode_projectRequest :: "projectRequest \<Rightarrow> error + string"
  decode_projectResponse :: "string \<Rightarrow> error + projectResponse"
  decode_projectsResponse :: "string \<Rightarrow> error + projectsResponse"
  encode_messageRequest :: "messageRequest \<Rightarrow> error + string"
  decode_messageResponse :: "string \<Rightarrow> error + messageResponse"
  decode_messagesResponse :: "string \<Rightarrow> error + messagesResponse"
  encode_milestoneRequest :: "milestoneRequest \<Rightarrow> error + string"
  decode_milestoneResponse :: "string \<Rightarrow> error + milestoneResponse"
  decode_milestonesResponse :: "string \<Rightarrow> error + milestonesResponse"
  encode_ticketRequest :: "ticketRequest \<Rightarrow> error + string"
  decode_ticketResponse :: "string \<Rightarrow> error + ticketResponse"
  decode_ticketsResponse :: "string \<Rightarrow> error + ticketsResponse"

section \<open>Loops shared by the packages\<close>

text \<open>
  The loop \<open>for _, m := range xs { ms = append(ms, m.Field) }\<close> of every
  \<open>xsResponse\<close> type: \<open>m\<close> is a pointer, and reading its field dereferences it.
\<close>

fun range_append :: "('r \<Rightarrow> 'a) \<Rightarrow> 'r option list \<Rightarrow> 'a list \<Rightarrow> error + 'a list" where
  "range_append field [] ms = Inr ms"
| "range_append field (m # rest) ms =
     (case m of
        None \<Rightarrow> Inl NilPointerDereference
      | Some r \<Rightarrow> range_append field rest (ms @ [field r]))"




section \<open>Package tickets: functions\<close>

definition tickets :: "ticketsResponse \<Rightarrow> error + Tickets" where
  "tickets msr = range_append ticketResponse.Ticket (ticketsResponse.Tickets msr) []"

definition tickets_List :: "golib \<Rightarrow> Service \<Rightarrow> tickets_ListOptions option \<Rightarrow> error + Tickets" where
  "tickets_List lib sv opts =
     (case (case opts of
              None \<Rightarrow> Inr (basePath sv @ ''.json'')
            | Some opt \<Rightarrow>
                url_with_query lib (basePath sv @ ''.json'')
                  ((if length (tickets_ListOptions.Query opt) > 0
                    then [(''q'', tickets_ListOptions.Query opt)] else []) @
                   (if tickets_ListOptions.Limit opt > 0
                    then [(''limit'', Itoa (tickets_ListOptions.Limit opt))] else []) @
                   (if tickets_ListOptions.Page opt > 0
                    then [(''page'', Itoa (tickets_ListOptions.Page opt))] else []))) of
        Inl err \<Rightarrow> Inl err
      | Inr path \<Rightarrow>
          (case RoundTrip (s sv) ''GET'' path None of
             Inl err \<Rightarrow> Inl err
           | Inr resp \<Rightarrow>
               (case CheckResponse (s sv) resp StatusOK of
                  Some err \<Rightarrow> Inl err
                | None \<Rightarrow>
                    (case decode_ticketsResponse lib (Response.Body resp) of
                       Inl err \<Rightarrow> Inl err
                     | Inr tsresp \<Rightarrow> tickets tsresp))))"

text \<open>
  The loop of \<open>ListAll\<close>, \<open>for realOpts.Page = 1; ; realOpts.Page++\<close>. It has no bound:
  the result is \<open>None\<close> when it never returns.
\<close>

partial_function (option) tickets_ListAll_loop ::
  "golib \<Rightarrow> Service \<Rightarrow> tickets_ListOptions \<Rightarrow> Tickets \<Rightarrow> (error + Tickets) option" where
  "tickets_ListAll_loop lib sv realOpts ts =
     (case tickets_List lib sv (Some realOpts) of
        Inl err \<Rightarrow> Some (Inl err)
      | Inr p \<Rightarrow>
          if length p = 0 then Some (Inr ts)
          else tickets_ListAll_loop lib sv
                 (realOpts\<lparr>tickets_ListOptions.Page := tickets_ListOptions.Page realOpts + 1\<rparr>)
                 (ts @ p))"

definition tickets_ListAll ::
  "golib \<Rightarrow> Service \<Rightarrow> tickets_ListOptions option \<Rightarrow> (error + Tickets) option" where
  "tickets_ListAll lib sv opts =
     (let realOpts = (case opts of
                        None \<Rightarrow> tickets_ListOptions_zero
                      | Some opt \<Rightarrow> opt)
      in tickets_ListAll_loop lib sv (realOpts\<lparr>tickets_ListOptions.Page := 1\<rparr>) [])"

text \<open>\<open>Update\<close> returns only an error; it assigns nothing to \<open>*t\<close>.\<close>

definition tickets_Update :: "golib \<Rightarrow> Service \<Rightarrow> Ticket \<Rightarrow> error option" where
  "tickets_Update lib sv t =
     (let treq = \<lparr>ticketRequest.Ticket =
                   TicketUpdate_view \<lparr>TicketUpdate.Ticket = Some t,
                                      TicketUpdate.NotifyAll = None,
                                      TicketUpdate.MultipleWatchers = []\<rparr>\<rparr>
      in case encode_ticketRequest lib treq of
           Inl err \<Rightarrow> Some err
         | Inr buf \<Rightarrow>
             (case RoundTrip (s sv) ''PUT''
                     (basePath sv @ ''/'' @ Itoa (Ticket.Number t) @ ''.json'') (Some buf) of
                Inl err \<Rightarrow> Some err
              | Inr resp \<Rightarrow> CheckResponse (s sv) resp StatusOK))"

definition tickets_get :: "golib \<Rightarrow> Service \<Rightarrow> string \<Rightarrow> error + Ticket option" where
  "tickets_get lib sv number =
     (case RoundTrip (s sv) ''GET'' (basePath sv @ ''/'' @ number @ ''.json'') None of
        Inl err \<Rightarrow> Inl err
      | Inr resp \<Rightarrow>
          (case CheckResponse (s sv) resp StatusOK of
             Some err \<Rightarrow> Inl err
           | None \<Rightarrow>
               (case decode_ticketResponse lib (Response.Body resp) of
                  Inl err \<Rightarrow> Inl err
                | Inr tresp \<Rightarrow> Inr (ticketResponse.Ticket tresp))))"

definition tickets_GetByNumber :: "golib \<Rightarrow> Service \<Rightarrow> int \<Rightarrow> error + Ticket option" where
  "tickets_GetByNumber lib sv number = tickets_get lib sv (Itoa number)"

text \<open>\<open>tickets.Number\<close> returns the pair \<open>(int, error)\<close>; a nil error is \<open>None\<close>.\<close>

definition Number :: "string \<Rightarrow> int \<times> error option" where
  "Number numberStr =
     (let str = (if HasPrefix numberStr ''#'' then drop 1 numberStr else numberStr)
      in case ParseInt str of
           Inl err \<Rightarrow> (0, Some (InvalidTicketNumber numberStr))
         | Inr number \<Rightarrow> (number, None))"

definition tickets_Get :: "golib \<Rightarrow> Service \<Rightarrow> string \<Rightarrow> error + Ticket option" where
  "tickets_Get lib sv numberStr =
     (case Number numberStr of
        (number, Some err) \<Rightarrow> Inl err
      | (number, None) \<Rightarrow> tickets_GetByNumber lib sv number)"

definition tickets_DeleteByNumber :: "Service \<Rightarrow> int \<Rightarrow> error option" where
  "tickets_DeleteByNumber sv number =
     (case RoundTrip (s sv) ''DELETE'' (basePath sv @ ''/'' @ Itoa number @ ''.json'') None of
        Inl err \<Rightarrow> Some err
      | Inr resp \<Rightarrow> CheckResponse (s sv) resp StatusOK)"

definition tickets_Delete :: "Service \<Rightarrow> string \<Rightarrow> error option" where
  "tickets_Delete sv numberStr =
     (case Number numberStr of
        (number, Some err) \<Rightarrow> Some err
      | (number, None) \<Rightarrow> tickets_DeleteByNumber sv number)"

section \<open>Package bins: functions\<close>

definition bins :: "binsResponse \<Rightarrow> error + Bins" where
  "bins r = range_append binResponse.Bin (binsResponse.Bins r) []"

definition bins_List :: "golib \<Rightarrow> Service \<Rightarrow> error + Bins" where
  "bins_List lib sv =
     (case RoundTrip (s sv) ''GET'' (basePath sv @ ''.json'') None of
        Inl err \<Rightarrow> Inl err
      | Inr resp \<Rightarrow>
          (case CheckResponse (s sv) resp StatusOK of
             Some err \<Rightarrow> Inl err
           | None \<Rightarrow>
               (case decode_binsResponse lib (Response.Body resp) of
                  Inl err \<Rightarrow> Inl err
                | Inr r \<Rightarrow> bins r)))"







text \<open>\<open>Update\<close> returns only an error; it assigns nothing to the entity it is given.\<close>

definition bins_Update :: "golib \<Rightarrow> Service \<Rightarrow> Bin \<Rightarrow> error option" where
  "bins_Update lib sv x =
     (let req = \<lparr>binRequest.Bin =
                  BinUpdate_view \<lparr>BinUpdate.Default = Bin.Default x,
                                     BinUpdate.Name = Bin.Name x,
                                     BinUpdate.Query = Bin.Query x\<rparr>\<rparr>
      in case encode_binRequest lib req of
           Inl err \<Rightarrow> Some err
         | Inr buf \<Rightarrow>
             (case RoundTrip (s sv) ''PUT''
                     (basePath sv @ ''/'' @ Itoa (Bin.ID x) @ ''.json'') (Some buf) of
                Inl err \<Rightarrow> Some err
              | Inr resp \<Rightarrow> CheckResponse (s sv) resp StatusOK))"

section \<open>Package projects: functions\<close>

definition projects :: "projectsResponse \<Rightarrow> error + Projects" where
  "projects r = range_append projectResponse.Project (projectsResponse.Projects r) []"









definition projects_Update :: "golib \<Rightarrow> Service \<Rightarrow> Project \<Rightarrow> error option" where
  "projects_Update lib sv x =
     (let req = \<lparr>projectRequest.Project =
                  ProjectUpdate_view \<lparr>ProjectUpdate.Archived = Project.Archived x,
                                     ProjectUpdate.Name = Project.Name x,
                                     ProjectUpdate.Public = Project.Public x\<rparr>\<rparr>
      in case encode_projectRequest lib req of
           Inl err \<Rightarrow> Some err
         | Inr buf \<Rightarrow>
             (case RoundTrip (s sv) ''PUT''
                     (basePath sv @ ''/'' @ Itoa (Project.ID x) @ ''.json'') (Some buf) of
                Inl err \<Rightarrow> Some err
              | Inr resp \<Rightarrow> CheckResponse (s sv) resp StatusOK))"

section \<open>Package messages: functions\<close>

definition messages :: "messagesResponse \<Rightarrow> error + Messages" where
  "messages r = range_append messageResponse.Message (messagesResponse.Messages r) []"









definition messages_Update :: "golib \<Rightarrow> Service \<Rightarrow> Message \<Rightarrow> error option" where
  "messages_Update lib sv x =
     (let req = \<lparr>messageRequest.Message =
                  MessageUpdate_view \<lparr>MessageUpdate.Body = Message.Body x,
                                     MessageUpdate.Title = Message.Title x\<rparr>\<rparr>
      in case encode_messageRequest lib req of
           Inl err \<Rightarrow> Some err
         | Inr buf \<Rightarrow>
             (case RoundTrip (s sv) ''PUT''
                     (basePath sv @ ''/'' @ Itoa (Message.ID x) @ ''.json'') (Some buf) of
                Inl err \<Rightarrow> Some err
              | Inr resp \<Rightarrow> CheckResponse (s sv) resp StatusOK))"

section \<open>Package milestones: functions\<close>

definition milestones :: "milestonesResponse \<Rightarrow> error + Milestones" where
  "milestones r = range_append milestoneResponse.Milestone (milestonesResponse.Milestones r) []"

definition milestones_List ::
  "golib \<Rightarrow> Service \<Rightarrow> milestones_ListOptions option \<Rightarrow> error + Milestones" where
  "milestones_List lib sv opts =
     (case (case opts of
              None \<Rightarrow> Inr (basePath sv @ ''.json'')
            | Some opt \<Rightarrow>
                url_with_query lib (basePath sv @ ''.json'')
                  (if milestones_ListOptions.Page opt > 0
                   then [(''page'', Itoa (milestones_ListOptions.Page opt))] else [])) of
        Inl err \<Rightarrow> Inl err
      | Inr path \<Rightarrow>
          (case RoundTrip (s sv) ''GET'' path None of
             Inl err \<Rightarrow> Inl err
           | Inr resp \<Rightarrow>
               (case CheckResponse (s sv) resp StatusOK of
                  Some err \<Rightarrow> Inl err
                | None \<Rightarrow>
                    (case decode_milestonesResponse lib (Response.Body resp) of
                       Inl err \<Rightarrow> Inl err
                     | Inr r \<Rightarrow> milestones r))))"

partial_function (option) milestones_ListAll_loop ::
  "golib \<Rightarrow> Service \<Rightarrow> milestones_ListOptions \<Rightarrow> Milestones \<Rightarrow> (error + Milestones) option" where
  "milestones_ListAll_loop lib sv realOpts ms =
     (case milestones_List lib sv (Some realOpts) of
        Inl err \<Rightarrow> Some (Inl err)
      | Inr p \<Rightarrow>
          if length p = 0 then Some (Inr ms)
          else milestones_ListAll_loop lib sv
                 (realOpts\<lparr>milestones_ListOptions.Page :=
                             milestones_ListOptions.Page realOpts + 1\<rparr>)
                 (ms @ p))"

definition milestones_ListAll ::
  "golib \<Rightarrow> Service \<Rightarrow> milestones_ListOptions option \<Rightarrow> (error + Milestones) option" where
  "milestones_ListAll lib sv opts =
     (let realOpts = (case opts of
                        None \<Rightarrow> \<lparr>milestones_ListOptions.Page = 0\<rparr>
                      | Some opt \<Rightarrow> opt)
      in milestones_ListAll_loop lib sv (realOpts\<lparr>milestones_ListOptions.Page := 1\<rparr>) [])"








definition milestones_Update :: "golib \<Rightarrow> Service \<Rightarrow> Milestone \<Rightarrow> error option" where
  "milestones_Update lib sv x =
     (let req = \<lparr>milestoneRequest.Milestone =
                  MilestoneUpdate_view \<lparr>MilestoneUpdate.Goals = Milestone.Goals x,
                                     MilestoneUpdate.Title = Milestone.Title x,
                                     MilestoneUpdate.DueOn = Milestone.DueOn x\<rparr>\<rparr>
      in case encode_milestoneRequest lib req of
           Inl err \<Rightarrow> Some err
         | Inr buf \<Rightarrow>
             (case RoundTrip (s sv) ''PUT''
                     (basePath sv @ ''/'' @ Itoa (Milestone.ID x) @ ''.json'') (Some buf) of
                Inl err \<Rightarrow> Some err
              | Inr resp \<Rightarrow> CheckResponse (s sv) resp StatusOK))"

section \<open>The export command: file names\<close>








section \<open>An example service\<close>

text \<open>
  A server used in the examples: \<open>GET /p.json\<close> answers with the collection payload
  of two tickets, \<open>GET /p.json?page=k\<close> with a page of 100, 100, 37 and then 0
  entities, every other request with status 200. The decoders give what
  \<open>encoding/json\<close> gives on these bodies: the fields that the body does not name keep
  their zero values.
\<close>

definition example_payload :: string where
  \<open>example_payload = ''{"tickets":[{"ticket":{"number":1}},{"ticket":{"number":2}}]}''\<close>

definition example_page_size :: "string \<Rightarrow> nat" where
  "example_page_size body =
     (if body = ''/p.json?page=1'' \<or> body = ''/p.json?page=2'' then 100
      else if body = ''/p.json?page=3'' then 37 else 0)"

definition example_Service :: Service where
  "example_Service =
     \<lparr>basePath = ''/p'',
      s = \<lparr>BasePath = [],
           RoundTrip = (\<lambda>method path body.
             Inr \<lparr>StatusCode = 200,
                  Response.Body = (if path = ''/p.json'' then example_payload else path)\<rparr>),
           CheckResponse = (\<lambda>resp want.
             if StatusCode resp = want then None else Some (OtherError ''status'')),
           lighthouse_ID = (\<lambda>str.
             case ParseInt str of Inl e \<Rightarrow> Inl (OtherError ''syntax'') | Inr n \<Rightarrow> Inr n)\<rparr>\<rparr>"

definition example_lib :: golib where
  "example_lib =
     \<lparr>url_with_query = (\<lambda>path values.
        Inr (path @ concat (map (\<lambda>(k, v). CHR ''?'' # k @ CHR ''='' # v) values))),
      encode_binRequest = (\<lambda>req. Inr ''{}''),
      decode_binResponse = (\<lambda>body. Inr \<lparr>binResponse.Bin = None\<rparr>),
      decode_binsResponse = (\<lambda>body.
        Inr \<lparr>binsResponse.Bins =
              [Some \<lparr>binResponse.Bin = Some (Bin_zero\<lparr>Bin.ID := 7, Bin.Name := ''Inbox''\<rparr>)\<rparr>]\<rparr>),
      encode_projectRequest = (\<lambda>req. Inr ''{}''),
      decode_projectResponse = (\<lambda>body. Inr \<lparr>projectResponse.Project = None\<rparr>),
      decode_projectsResponse = (\<lambda>body.
        Inr \<lparr>projectsResponse.Projects =
              [Some \<lparr>projectResponse.Project =
                       Some (Project_zero\<lparr>Project.ID := 5, Project.Name := ''Web''\<rparr>)\<rparr>]\<rparr>),
      encode_messageRequest = (\<lambda>req. Inr ''{}''),
      decode_messageResponse = (\<lambda>body. Inr \<lparr>messageResponse.Message = None\<rparr>),
      decode_messagesResponse = (\<lambda>body.
        Inr \<lparr>messagesResponse.Messages =
              [Some \<lparr>messageResponse.Message =
                       Some (Message_zero\<lparr>Message.ID := 9, Message.Title := ''Hello''\<rparr>)\<rparr>]\<rparr>),
      encode_milestoneRequest = (\<lambda>req. Inr ''{}''),
      decode_milestoneResponse = (\<lambda>body. Inr \<lparr>milestoneResponse.Milestone = None\<rparr>),
      decode_milestonesResponse = (\<lambda>body.
        Inr \<lparr>milestonesResponse.Milestones =
              replicate (example_page_size body)
                (Some \<lparr>milestoneResponse.Milestone =
                         Some (Milestone_zero\<lparr>Milestone.ID := 3,
                                              Milestone.Title := ''Beta''\<rparr>)\<rparr>)\<rparr>),
      encode_ticketRequest = (\<lambda>req. Inr ''{}''),
      decode_ticketResponse = (\<lambda>body. Inr \<lparr>ticketResponse.Ticket = None\<rparr>),
      decode_ticketsResponse = (\<lambda>body.
        if body = example_payload
        then Inr \<lparr>ticketsResponse.Tickets =
                   [Some \<lparr>ticketResponse.Ticket = Some (Ticket_zero\<lparr>Ticket.Number := 1\<rparr>)\<rparr>,
                    Some \<lparr>ticketResponse.Ticket = Some (Ticket_zero\<lparr>Ticket.Number := 2\<rparr>)\<rparr>]\<rparr>
        else Inr \<lparr>ticketsResponse.Tickets =
                   replicate (example_page_size body)
                     (Some \<lparr>ticketResponse.Ticket = Some Ticket_zero\<rparr>)\<rparr>)\<rparr>"

text \<open>
  What the specification calls a decimal integer: an optional sign and at least one
  decimal digit.
\<close>

definition decimal_integer :: "string \<Rightarrow> bool" where
  "decimal_integer str =
     (let ds = (case str of
                  [] \<Rightarrow> []
                | c # cs \<Rightarrow> if c = CHR ''+'' \<or> c = CHR ''-'' then cs else str)
      in ds \<noteq> [] \<and> list_all isDigit ds)"


chapter \<open>Properties\<close>

section \<open>Unwrapping collections\<close>

lemma range_append_Some: "range_append field (map Some rs) ms = Inr (ms @ map field rs)"
  by (induction rs arbitrary: ms) simp_all

lemma range_append_None: "None \<in> set xs \<Longrightarrow> range_append field xs ms = Inl NilPointerDereference"
  by (induction xs arbitrary: ms) (auto split: option.splits)

lemma range_append_replicate:
  "range_append field (replicate n (Some r)) ms = Inr (ms @ replicate n (field r))"
  using range_append_Some [of field "replicate n r" ms] by simp

lemma Itoa_small: "Itoa 1 = ''1''" "Itoa 2 = ''2''" "Itoa 3 = ''3''" "Itoa 4 = ''4''"
  by code_simp+

section \<open>Pagination\<close>

lemma tickets_ListAll_loop_pages:
  "(\<forall>i<length ps. tickets_List lib sv (Some (ro\<lparr>tickets_ListOptions.Page := k + int i\<rparr>)) = Inr (ps ! i)
        \<and> ps ! i \<noteq> []) \<Longrightarrow>
   tickets_List lib sv (Some (ro\<lparr>tickets_ListOptions.Page := k + int (length ps)\<rparr>)) = Inr [] \<Longrightarrow>
   tickets_ListAll_loop lib sv (ro\<lparr>tickets_ListOptions.Page := k\<rparr>) ts = Some (Inr (ts @ concat ps))"
proof (induction ps arbitrary: k ts)
  case Nil
  then show ?case by (subst tickets_ListAll_loop.simps) simp
next
  case (Cons p ps)
  from Cons.prems(1) have p: "tickets_List lib sv (Some (ro\<lparr>tickets_ListOptions.Page := k\<rparr>)) = Inr p" "p \<noteq> []"
    by force+
  have rest: "\<forall>i<length ps. tickets_List lib sv (Some (ro\<lparr>tickets_ListOptions.Page := (k + 1) + int i\<rparr>)) = Inr (ps ! i)
        \<and> ps ! i \<noteq> []"
  proof (intro allI impI)
    fix i assume "i < length ps"
    then have "Suc i < length (p # ps)" by simp
    from Cons.prems(1)[rule_format, OF this] show "tickets_List lib sv (Some (ro\<lparr>tickets_ListOptions.Page := (k + 1) + int i\<rparr>)) = Inr (ps ! i)
        \<and> ps ! i \<noteq> []" by (simp add: ac_simps)
  qed
  have last: "tickets_List lib sv (Some (ro\<lparr>tickets_ListOptions.Page := (k + 1) + int (length ps)\<rparr>)) = Inr []"
    using Cons.prems(2) by (simp add: ac_simps)
  from Cons.IH[OF rest last]
  have "tickets_ListAll_loop lib sv (ro\<lparr>tickets_ListOptions.Page := k + 1\<rparr>) (ts @ p) = Some (Inr ((ts @ p) @ concat ps))" .
  with p show ?case by (subst tickets_ListAll_loop.simps) simp
qed

lemma milestones_ListAll_loop_pages:
  "(\<forall>i<length ps. milestones_List lib sv (Some (ro\<lparr>milestones_ListOptions.Page := k + int i\<rparr>)) = Inr (ps ! i)
        \<and> ps ! i \<noteq> []) \<Longrightarrow>
   milestones_List lib sv (Some (ro\<lparr>milestones_ListOptions.Page := k + int (length ps)\<rparr>)) = Inr [] \<Longrightarrow>
   milestones_ListAll_loop lib sv (ro\<lparr>milestones_ListOptions.Page := k\<rparr>) ts = Some (Inr (ts @ concat ps))"
proof (induction ps arbitrary: k ts)
  case Nil
  then show ?case by (subst milestones_ListAll_loop.simps) simp
next
  case (Cons p ps)
  from Cons.prems(1) have p: "milestones_List lib sv (Some (ro\<lparr>milestones_ListOptions.Page := k\<rparr>)) = Inr p" "p \<noteq> []"
    by force+
  have rest: "\<forall>i<length ps. milestones_List lib sv (Some (ro\<lparr>milestones_ListOptions.Page := (k + 1) + int i\<rparr>)) = Inr (ps ! i)
        \<and> ps ! i \<noteq> []"
  proof (intro allI impI)
    fix i assume "i < length ps"
    then have "Suc i < length (p # ps)" by simp
    from Cons.prems(1)[rule_format, OF this] show "milestones_List lib sv (Some (ro\<lparr>milestones_ListOptions.Page := (k + 1) + int i\<rparr>)) = Inr (ps ! i)
        \<and> ps ! i \<noteq> []" by (simp add: ac_simps)
  qed
  have last: "milestones_List lib sv (Some (ro\<lparr>milestones_ListOptions.Page := (k + 1) + int (length ps)\<rparr>)) = Inr []"
    using Cons.prems(2) by (simp add: ac_simps)
  from Cons.IH[OF rest last]
  have "milestones_ListAll_loop lib sv (ro\<lparr>milestones_ListOptions.Page := k + 1\<rparr>) (ts @ p) = Some (Inr ((ts @ p) @ concat ps))" .
  with p show ?case by (subst milestones_ListAll_loop.simps) simp
qed


lemma example_tickets_List:
  "tickets_List example_lib example_Service
     (Some (tickets_ListOptions_zero\<lparr>tickets_ListOptions.Page := k\<rparr>)) =
   (if k > 0 then Inr (replicate (example_page_size (''/p.json?page='' @ Itoa k)) (Some Ticket_zero))
    else Inr [Some (Ticket_zero\<lparr>Ticket.Number := 1\<rparr>), Some (Ticket_zero\<lparr>Ticket.Number := 2\<rparr>)])"
  by (simp add: tickets_List_def example_lib_def example_Service_def tickets_ListOptions_zero_def
      StatusOK_def tickets_def example_payload_def range_append_replicate)

text \<open>
  Claim C1. \<open>ListAll\<close> of the tickets and of the milestones service: when the calls of
  \<open>List\<close> with \<open>Page = 1, 2, 3, \<dots>\<close> return the non-empty pages \<open>ps\<close> and then an
  empty page, \<open>ListAll\<close> returns, and its result is the concatenation of \<open>ps\<close> in page
  order (of length 237 for pages of 100, 100 and 37 entities), whatever the server
  holds after the first empty page. The page number of the options that the caller
  passes has no effect. The page counter is a Go \<open>int\<close>; the statement is for fewer than \<open>2 ^ 63\<close>
  pages.
\<close>

theorem ListAll_concatenates_pages:
  fixes ps :: "Tickets list" and qs :: "Milestones list"
  shows
  "((\<forall>i<length ps.
        tickets_List lib sv (Some (topt\<lparr>tickets_ListOptions.Page := 1 + int i\<rparr>)) = Inr (ps ! i)
        \<and> ps ! i \<noteq> []) \<and>
     tickets_List lib sv (Some (topt\<lparr>tickets_ListOptions.Page := 1 + int (length ps)\<rparr>)) = Inr [] \<and>
     1 + int (length ps) < 2 ^ 63 \<longrightarrow>
     tickets_ListAll lib sv (Some topt) = Some (Inr (concat ps)) \<and>
     (topt = tickets_ListOptions_zero \<longrightarrow> tickets_ListAll lib sv None = Some (Inr (concat ps))) \<and>
     (map length ps = [100, 100, 37] \<longrightarrow>
        (\<exists>ts. tickets_ListAll lib sv (Some topt) = Some (Inr ts) \<and> length ts = 237))) \<and>
   tickets_ListAll lib sv (Some (topt\<lparr>tickets_ListOptions.Page := page\<rparr>)) =
     tickets_ListAll lib sv (Some topt) \<and>
   ((\<forall>i<length qs.
        milestones_List lib sv (Some (mopt\<lparr>milestones_ListOptions.Page := 1 + int i\<rparr>)) = Inr (qs ! i)
        \<and> qs ! i \<noteq> []) \<and>
     milestones_List lib sv (Some (mopt\<lparr>milestones_ListOptions.Page := 1 + int (length qs)\<rparr>)) = Inr [] \<and>
     1 + int (length qs) < 2 ^ 63 \<longrightarrow>
     milestones_ListAll lib sv (Some mopt) = Some (Inr (concat qs)) \<and>
     milestones_ListAll lib sv None = Some (Inr (concat qs)) \<and>
     (map length qs = [100, 100, 37] \<longrightarrow>
        (\<exists>ms. milestones_ListAll lib sv (Some mopt) = Some (Inr ms) \<and> length ms = 237))) \<and>
   milestones_ListAll lib sv (Some (mopt\<lparr>milestones_ListOptions.Page := page\<rparr>)) =
     milestones_ListAll lib sv (Some mopt)"
proof -
  have len: "length (concat xs) = 237" if "map length xs = [100, 100, 37]"
    for xs :: "'a list list"
  proof -
    have "length (concat xs) = sum_list (map length xs)" by (simp add: length_concat)
    with that show ?thesis by simp
  qed
  have t: "tickets_ListAll lib sv (Some topt) = Some (Inr (concat ps))"
    if "\<forall>i<length ps.
        tickets_List lib sv (Some (topt\<lparr>tickets_ListOptions.Page := 1 + int i\<rparr>)) = Inr (ps ! i)
        \<and> ps ! i \<noteq> []"
      and "tickets_List lib sv (Some (topt\<lparr>tickets_ListOptions.Page := 1 + int (length ps)\<rparr>)) = Inr []"
    using tickets_ListAll_loop_pages [OF that, of "[]"] by (simp add: tickets_ListAll_def)
  have t0: "tickets_ListAll lib sv None = tickets_ListAll lib sv (Some tickets_ListOptions_zero)"
    by (simp add: tickets_ListAll_def tickets_ListOptions_zero_def)
  have tp: "tickets_ListAll lib sv (Some (topt\<lparr>tickets_ListOptions.Page := page\<rparr>)) =
     tickets_ListAll lib sv (Some topt)"
    by (simp add: tickets_ListAll_def)
  have m: "milestones_ListAll lib sv (Some mopt) = Some (Inr (concat qs))"
    if "\<forall>i<length qs.
        milestones_List lib sv (Some (mopt\<lparr>milestones_ListOptions.Page := 1 + int i\<rparr>)) = Inr (qs ! i)
        \<and> qs ! i \<noteq> []"
      and "milestones_List lib sv (Some (mopt\<lparr>milestones_ListOptions.Page := 1 + int (length qs)\<rparr>)) = Inr []"
    using milestones_ListAll_loop_pages [OF that, of "[]"] by (simp add: milestones_ListAll_def)
  have m0: "milestones_ListAll lib sv None = milestones_ListAll lib sv (Some mopt)"
    by (cases mopt) (simp add: milestones_ListAll_def)
  have mp: "milestones_ListAll lib sv (Some (mopt\<lparr>milestones_ListOptions.Page := page\<rparr>)) =
     milestones_ListAll lib sv (Some mopt)"
    by (simp add: milestones_ListAll_def)
  show ?thesis
    using t t0 tp m m0 mp len by (intro conjI impI) (auto simp del: One_nat_def)
qed

theorem ListAll_concatenates_pages_witness:
  "tickets_ListAll example_lib example_Service None =
     Some (Inr (replicate 100 (Some Ticket_zero) @ replicate 100 (Some Ticket_zero) @
                replicate 37 (Some Ticket_zero))) \<and>
   length (replicate 100 (Some Ticket_zero) @ replicate 100 (Some Ticket_zero) @
                replicate 37 (Some Ticket_zero)) = 237"
proof -
  let ?ps = "[replicate 100 (Some Ticket_zero), replicate 100 (Some Ticket_zero),
              replicate 37 (Some Ticket_zero)]"
  have 1: "\<forall>i<length ?ps.
        tickets_List example_lib example_Service
          (Some (tickets_ListOptions_zero\<lparr>tickets_ListOptions.Page := 1 + int i\<rparr>)) = Inr (?ps ! i)
        \<and> ?ps ! i \<noteq> []"
    by (simp add: All_less_Suc example_tickets_List example_page_size_def Itoa_small
        numeral_3_eq_3)
  have 2: "tickets_List example_lib example_Service
          (Some (tickets_ListOptions_zero\<lparr>tickets_ListOptions.Page := 1 + int (length ?ps)\<rparr>)) = Inr []"
    by (simp add: example_tickets_List example_page_size_def Itoa_small)
  have 3: "1 + int (length ?ps) < 2 ^ 63" by simp
  from ListAll_concatenates_pages [where ps = "?ps" and topt = tickets_ListOptions_zero
      and lib = example_lib and sv = example_Service and qs = "[]"] 1 2 3
  show ?thesis by simp
qed

section \<open>Ticket numbers\<close>

lemma ParseUint_loop_digits: "ParseUint_loop n cs = Inr v \<Longrightarrow> list_all isDigit cs"
  by (induction cs arbitrary: n) (auto simp: Let_def split: if_splits)

lemma ParseInt_decimal: "ParseInt str = Inr v \<Longrightarrow> decimal_integer str"
  by (cases str)
     (auto simp: ParseInt_def ParseUint_def decimal_integer_def Let_def
           dest: ParseUint_loop_digits split: if_splits sum.splits)

lemma ParseInt_hash: "ParseInt (CHR ''#'' # cs) = Inl ErrSyntax"
  by (simp add: ParseInt_def ParseUint_def isDigit_def)

lemma Number_hash:
  "\<not> HasPrefix str ''#'' \<Longrightarrow>
   Number (CHR ''#'' # str) =
     (fst (Number str), map_option (\<lambda>_. InvalidTicketNumber (CHR ''#'' # str)) (snd (Number str)))"
  by (simp add: Number_def HasPrefix_def split: sum.splits)

lemma Number_two_hashes:
  "Number (CHR ''#'' # CHR ''#'' # str) = (0, Some (InvalidTicketNumber (CHR ''#'' # CHR ''#'' # str)))"
  by (simp add: Number_def HasPrefix_def ParseInt_hash)

lemma Number_invalid:
  "\<not> decimal_integer (if HasPrefix numberStr ''#'' then drop 1 numberStr else numberStr) \<Longrightarrow>
   Number numberStr = (0, Some (InvalidTicketNumber numberStr))"
  by (cases "HasPrefix numberStr ''#''")
     (auto simp: Number_def dest: ParseInt_decimal split: sum.splits)

lemma Number_error: "snd (Number numberStr) \<noteq> None \<Longrightarrow> Number numberStr = (0, Some (InvalidTicketNumber numberStr))"
  by (cases "HasPrefix numberStr ''#''") (auto simp: Number_def split: sum.splits)

lemma Number_123: "Number ''123'' = (123, None)" "Number ''#123'' = (123, None)"
  by (simp_all add: Number_def HasPrefix_def ParseInt_def ParseUint_def isDigit_def)

text \<open>
  Claim C9. \<open>tickets.Number\<close> strips at most one leading \<open>#\<close> and parses the rest with
  \<open>strconv.ParseInt(str, 10, 64)\<close>. For a string \<open>str\<close> that does not start with \<open>#\<close>,
  \<open>Number("#" + str)\<close> and \<open>Number(str)\<close> return the same number and fail together (each
  error quotes the argument it was given); a second \<open>#\<close> is not stripped, so
  \<open>Number("##" + str)\<close> always fails. When the remainder is not a decimal integer the
  result is \<open>0\<close> and the invalid-ticket-number error. \<open>Get\<close> and \<open>Delete\<close> return that
  error whatever the service is (no request, no lookup by title), and accept both
  \<open>123\<close> and \<open>#123\<close>.
\<close>

theorem Number_strips_one_hash:
  "(\<not> HasPrefix str ''#'' \<longrightarrow>
      fst (Number (CHR ''#'' # str)) = fst (Number str) \<and>
      (snd (Number (CHR ''#'' # str)) = None \<longleftrightarrow> snd (Number str) = None) \<and>
      (snd (Number (CHR ''#'' # str)) \<noteq> None \<longrightarrow>
         snd (Number (CHR ''#'' # str)) = Some (InvalidTicketNumber (CHR ''#'' # str)))) \<and>
   Number (CHR ''#'' # CHR ''#'' # str) =
     (0, Some (InvalidTicketNumber (CHR ''#'' # CHR ''#'' # str))) \<and>
   (\<not> decimal_integer (if HasPrefix numberStr ''#'' then drop 1 numberStr else numberStr) \<longrightarrow>
      Number numberStr = (0, Some (InvalidTicketNumber numberStr))) \<and>
   (snd (Number numberStr) \<noteq> None \<longrightarrow>
      tickets_Get lib sv numberStr = Inl (InvalidTicketNumber numberStr) \<and>
      tickets_Delete sv numberStr = Some (InvalidTicketNumber numberStr)) \<and>
   tickets_Get lib sv ''123'' = tickets_GetByNumber lib sv 123 \<and>
   tickets_Get lib sv ''#123'' = tickets_GetByNumber lib sv 123 \<and>
   tickets_Delete sv ''123'' = tickets_DeleteByNumber sv 123 \<and>
   tickets_Delete sv ''#123'' = tickets_DeleteByNumber sv 123"
proof -
  have a: "\<not> HasPrefix str ''#'' \<longrightarrow>
      fst (Number (CHR ''#'' # str)) = fst (Number str) \<and>
      (snd (Number (CHR ''#'' # str)) = None \<longleftrightarrow> snd (Number str) = None) \<and>
      (snd (Number (CHR ''#'' # str)) \<noteq> None \<longrightarrow>
         snd (Number (CHR ''#'' # str)) = Some (InvalidTicketNumber (CHR ''#'' # str)))"
    by (auto simp: Number_hash)
  have b: "snd (Number numberStr) \<noteq> None \<longrightarrow>
      tickets_Get lib sv numberStr = Inl (InvalidTicketNumber numberStr) \<and>
      tickets_Delete sv numberStr = Some (InvalidTicketNumber numberStr)"
  proof (intro impI)
    assume "snd (Number numberStr) \<noteq> None"
    then have "Number numberStr = (0, Some (InvalidTicketNumber numberStr))"
      by (rule Number_error)
    then show "tickets_Get lib sv numberStr = Inl (InvalidTicketNumber numberStr) \<and>
      tickets_Delete sv numberStr = Some (InvalidTicketNumber numberStr)"
      by (simp add: tickets_Get_def tickets_Delete_def)
  qed
  have c: "tickets_Get lib sv ''123'' = tickets_GetByNumber lib sv 123"
    "tickets_Get lib sv ''#123'' = tickets_GetByNumber lib sv 123"
    "tickets_Delete sv ''123'' = tickets_DeleteByNumber sv 123"
    "tickets_Delete sv ''#123'' = tickets_DeleteByNumber sv 123"
    by (simp_all add: tickets_Get_def tickets_Delete_def Number_123)
  from a b c Number_two_hashes Number_invalid show ?thesis by blast
qed

theorem Number_strips_one_hash_witness:
  "\<not> HasPrefix ''42'' ''#'' \<and>
   Number ''#42'' = (42, None) \<and> Number ''42'' = (42, None) \<and>
   \<not> decimal_integer ''4x2'' \<and>
   Number ''#4x2'' = (0, Some (InvalidTicketNumber ''#4x2'')) \<and>
   (\<forall>lib sv. tickets_Get lib sv ''#4x2'' = Inl (InvalidTicketNumber ''#4x2'')) \<and>
   (\<forall>sv. tickets_Delete sv ''#4x2'' = Some (InvalidTicketNumber ''#4x2''))"
proof -
  have n: "Number ''42'' = (42, None)"
    by (simp add: Number_def HasPrefix_def ParseInt_def ParseUint_def isDigit_def)
  have p: "\<not> HasPrefix ''42'' ''#''" by (simp add: HasPrefix_def)
  have d: "\<not> decimal_integer ''4x2''" by (simp add: decimal_integer_def isDigit_def)
  have h: "HasPrefix ''#4x2'' ''#''" by (simp add: HasPrefix_def)
  note t = Number_strips_one_hash [where str = "''42''" and numberStr = "''#4x2''"]
  from t p n have 1: "Number ''#42'' = (42, None)"
    by (metis fst_conv snd_conv prod.collapse)
  from t d h have 2: "Number ''#4x2'' = (0, Some (InvalidTicketNumber ''#4x2''))"
    by simp
  from t 2 have 3: "\<forall>lib sv. tickets_Get lib sv ''#4x2'' = Inl (InvalidTicketNumber ''#4x2'')"
    "\<forall>sv. tickets_Delete sv ''#4x2'' = Some (InvalidTicketNumber ''#4x2'')"
    by simp_all
  from p n 1 d 2 3 show ?thesis by simp
qed

section \<open>Collections keep the order of the response\<close>

text \<open>
  Claim C2. A decoded collection response is a list of pointers to wrappers, each
  holding one entity. When every element of the array is a wrapper object (no element
  is nil), the method that flattens the response returns exactly one entity per
  element, in the order of the array, so the result has the length of the array; and
  \<open>List\<close> returns that sequence when the request succeeds and the body decodes. For
  the payload \<open>{"tickets":[{"ticket":{"number":1}},{"ticket":{"number":2}}]}\<close> the
  result is two tickets with the numbers 1 and 2, in this order.
\<close>

theorem collection_unwraps_in_order:
  "(ticketsResponse.Tickets tickets_resp = map Some ticket_rs \<longrightarrow>
      tickets tickets_resp = Inr (map ticketResponse.Ticket ticket_rs) \<and>
      length (map ticketResponse.Ticket ticket_rs) = length (ticketsResponse.Tickets tickets_resp) \<and>
      (\<forall>i<length ticket_rs. map ticketResponse.Ticket ticket_rs ! i = ticketResponse.Ticket (ticket_rs ! i))) \<and>
   (binsResponse.Bins bins_resp = map Some bin_rs \<longrightarrow>
      bins bins_resp = Inr (map binResponse.Bin bin_rs) \<and>
      length (map binResponse.Bin bin_rs) = length (binsResponse.Bins bins_resp) \<and>
      (\<forall>i<length bin_rs. map binResponse.Bin bin_rs ! i = binResponse.Bin (bin_rs ! i))) \<and>
   (projectsResponse.Projects projects_resp = map Some project_rs \<longrightarrow>
      projects projects_resp = Inr (map projectResponse.Project project_rs) \<and>
      length (map projectResponse.Project project_rs) = length (projectsResponse.Projects projects_resp) \<and>
      (\<forall>i<length project_rs. map projectResponse.Project project_rs ! i = projectResponse.Project (project_rs ! i))) \<and>
   (messagesResponse.Messages messages_resp = map Some message_rs \<longrightarrow>
      messages messages_resp = Inr (map messageResponse.Message message_rs) \<and>
      length (map messageResponse.Message message_rs) = length (messagesResponse.Messages messages_resp) \<and>
      (\<forall>i<length message_rs. map messageResponse.Message message_rs ! i = messageResponse.Message (message_rs ! i))) \<and>
   (milestonesResponse.Milestones milestones_resp = map Some milestone_rs \<longrightarrow>
      milestones milestones_resp = Inr (map milestoneResponse.Milestone milestone_rs) \<and>
      length (map milestoneResponse.Milestone milestone_rs) = length (milestonesResponse.Milestones milestones_resp) \<and>
      (\<forall>i<length milestone_rs. map milestoneResponse.Milestone milestone_rs ! i = milestoneResponse.Milestone (milestone_rs ! i))) \<and>
   (RoundTrip (s sv) ''GET'' (basePath sv @ ''.json'') None = Inr resp \<and>
    CheckResponse (s sv) resp StatusOK = None \<and>
    decode_ticketsResponse lib (Response.Body resp) = Inr tickets_resp \<and>
    ticketsResponse.Tickets tickets_resp = map Some ticket_rs \<longrightarrow>
      tickets_List lib sv None = Inr (map ticketResponse.Ticket ticket_rs)) \<and>
   (RoundTrip (s sv) ''GET'' (basePath sv @ ''.json'') None = Inr resp \<and>
    CheckResponse (s sv) resp StatusOK = None \<and>
    decode_binsResponse lib (Response.Body resp) = Inr bins_resp \<and>
    binsResponse.Bins bins_resp = map Some bin_rs \<longrightarrow>
      bins_List lib sv = Inr (map binResponse.Bin bin_rs))"
  by (simp add: tickets_def bins_def projects_def messages_def milestones_def
      tickets_List_def bins_List_def range_append_Some)

theorem collection_unwraps_in_order_witness:
  "decode_ticketsResponse example_lib example_payload =
     Inr \<lparr>ticketsResponse.Tickets =
            map Some [\<lparr>ticketResponse.Ticket = Some (Ticket_zero\<lparr>Ticket.Number := 1\<rparr>)\<rparr>,
                      \<lparr>ticketResponse.Ticket = Some (Ticket_zero\<lparr>Ticket.Number := 2\<rparr>)\<rparr>]\<rparr> \<and>
   tickets_List example_lib example_Service None =
     Inr [Some (Ticket_zero\<lparr>Ticket.Number := 1\<rparr>), Some (Ticket_zero\<lparr>Ticket.Number := 2\<rparr>)] \<and>
   map (map_option Ticket.Number)
     [Some (Ticket_zero\<lparr>Ticket.Number := 1\<rparr>), Some (Ticket_zero\<lparr>Ticket.Number := 2\<rparr>)] =
     [Some 1, Some 2] \<and>
   bins_List example_lib example_Service =
     Inr [Some (Bin_zero\<lparr>Bin.ID := 7, Bin.Name := ''Inbox''\<rparr>)]"
proof -
  let ?rs = "[\<lparr>ticketResponse.Ticket = Some (Ticket_zero\<lparr>Ticket.Number := 1\<rparr>)\<rparr>,
              \<lparr>ticketResponse.Ticket = Some (Ticket_zero\<lparr>Ticket.Number := 2\<rparr>)\<rparr>]"
  let ?bs = "[\<lparr>binResponse.Bin = Some (Bin_zero\<lparr>Bin.ID := 7, Bin.Name := ''Inbox''\<rparr>)\<rparr>]"
  let ?resp = "\<lparr>StatusCode = 200, Response.Body = example_payload\<rparr>"
  have 1: "RoundTrip (s example_Service) ''GET'' (basePath example_Service @ ''.json'') None = Inr ?resp"
    by (simp add: example_Service_def)
  have 2: "CheckResponse (s example_Service) ?resp StatusOK = None"
    by (simp add: example_Service_def StatusOK_def)
  have 3: "decode_ticketsResponse example_lib (Response.Body ?resp) =
             Inr \<lparr>ticketsResponse.Tickets = map Some ?rs\<rparr>"
    by (simp add: example_lib_def)
  have 4: "decode_binsResponse example_lib (Response.Body ?resp) =
             Inr \<lparr>binsResponse.Bins = map Some ?bs\<rparr>"
    by (simp add: example_lib_def)
  from collection_unwraps_in_order [where sv = example_Service and lib = example_lib
      and resp = "?resp" and tickets_resp = "\<lparr>ticketsResponse.Tickets = map Some ?rs\<rparr>"
      and ticket_rs = "?rs" and bins_resp = "\<lparr>binsResponse.Bins = map Some ?bs\<rparr>"
      and bin_rs = "?bs"] 1 2 3 4
  show ?thesis by simp
qed

section \<open>Lookup by name\<close>










section \<open>Update\<close>

text \<open>
  Claim C7. \<open>Update\<close> of every resource. It returns nil exactly when the update view of
  the entity, wrapped in the envelope of the resource, is encoded, the \<open>PUT\<close> of that
  body to \<open>basePath/<id>.json\<close> gets a response, and \<open>CheckResponse\<close> accepts the
  response for status 200. Two entities that agree on the fields of the update view and
  on the ID get the same result: no other field is sent. No decoder has any influence
  on the result: the body of the response is not read by \<open>Update\<close>. For tickets the
  update view embeds the whole ticket and the path is built from the ticket number.
  \<open>Update\<close> has the error as its only result in the model, since the Go functions
  assign nothing through the pointer they are given: the entity is left as it was.
\<close>

theorem Update_sends_update_view:
  "(bins_Update lib sv bin = None \<longleftrightarrow>
      (\<exists>buf resp.
         encode_binRequest lib
           \<lparr>binRequest.Bin = BinUpdate_view \<lparr>BinUpdate.Default = Bin.Default bin, BinUpdate.Name = Bin.Name bin, BinUpdate.Query = Bin.Query bin\<rparr>\<rparr> = Inr buf \<and>
         RoundTrip (s sv) ''PUT'' (basePath sv @ ''/'' @ Itoa (Bin.ID bin) @ ''.json'') (Some buf) =
           Inr resp \<and>
         CheckResponse (s sv) resp StatusOK = None)) \<and>
   (Bin.Default bin = Bin.Default bin_b \<and> Bin.Name bin = Bin.Name bin_b \<and> Bin.Query bin = Bin.Query bin_b \<and> Bin.ID bin = Bin.ID bin_b \<longrightarrow>
      bins_Update lib sv bin = bins_Update lib sv bin_b) \<and>
   bins_Update
      (lib\<lparr>decode_binResponse := bin_dec, decode_binsResponse := bins_dec\<rparr>) sv bin =
      bins_Update lib sv bin \<and>
   (projects_Update lib sv project = None \<longleftrightarrow>
      (\<exists>buf resp.
         encode_projectRequest lib
           \<lparr>projectRequest.Project = ProjectUpdate_view \<lparr>ProjectUpdate.Archived = Project.Archived project, ProjectUpdate.Name = Project.Name project, ProjectUpdate.Public = Project.Public project\<rparr>\<rparr> = Inr buf \<and>
         RoundTrip (s sv) ''PUT'' (basePath sv @ ''/'' @ Itoa (Project.ID project) @ ''.json'') (Some buf) =
           Inr resp \<and>
         CheckResponse (s sv) resp StatusOK = None)) \<and>
   (Project.Archived project = Project.Archived project_b \<and> Project.Name project = Project.Name project_b \<and> Project.Public project = Project.Public project_b \<and> Project.ID project = Project.ID project_b \<longrightarrow>
      projects_Update lib sv project = projects_Update lib sv project_b) \<and>
   projects_Update
      (lib\<lparr>decode_projectResponse := project_dec, decode_projectsResponse := projects_dec\<rparr>) sv project =
      projects_Update lib sv project \<and>
   (messages_Update lib sv message = None \<longleftrightarrow>
      (\<exists>buf resp.
         encode_messageRequest lib
           \<lparr>messageRequest.Message = MessageUpdate_view \<lparr>MessageUpdate.Body = Message.Body message, MessageUpdate.Title = Message.Title message\<rparr>\<rparr> = Inr buf \<and>
         RoundTrip (s sv) ''PUT'' (basePath sv @ ''/'' @ Itoa (Message.ID message) @ ''.json'') (Some buf) =
           Inr resp \<and>
         CheckResponse (s sv) resp StatusOK = None)) \<and>
   (Message.Body message = Message.Body message_b \<and> Message.Title message = Message.Title message_b \<and> Message.ID message = Message.ID message_b \<longrightarrow>
      messages_Update lib sv message = messages_Update lib sv message_b) \<and>
   messages_Update
      (lib\<lparr>decode_messageResponse := message_dec, decode_messagesResponse := messages_dec\<rparr>) sv message =
      messages_Update lib sv message \<and>
   (milestones_Update lib sv milestone = None \<longleftrightarrow>
      (\<exists>buf resp.
         encode_milestoneRequest lib
           \<lparr>milestoneRequest.Milestone = MilestoneUpdate_view \<lparr>MilestoneUpdate.Goals = Milestone.Goals milestone, MilestoneUpdate.Title = Milestone.Title milestone, MilestoneUpdate.DueOn = Milestone.DueOn milestone\<rparr>\<rparr> = Inr buf \<and>
         RoundTrip (s sv) ''PUT'' (basePath sv @ ''/'' @ Itoa (Milestone.ID milestone) @ ''.json'') (Some buf) =
           Inr resp \<and>
         CheckResponse (s sv) resp StatusOK = None)) \<and>
   (Milestone.Goals milestone = Milestone.Goals milestone_b \<and> Milestone.Title milestone = Milestone.Title milestone_b \<and> Milestone.DueOn milestone = Milestone.DueOn milestone_b \<and> Milestone.ID milestone = Milestone.ID milestone_b \<longrightarrow>
      milestones_Update lib sv milestone = milestones_Update lib sv milestone_b) \<and>
   milestones_Update
      (lib\<lparr>decode_milestoneResponse := milestone_dec, decode_milestonesResponse := milestones_dec\<rparr>) sv milestone =
      milestones_Update lib sv milestone \<and>
   (tickets_Update lib sv ticket = None \<longleftrightarrow>
      (\<exists>buf resp.
         encode_ticketRequest lib
           \<lparr>ticketRequest.Ticket =
              TicketUpdate_view \<lparr>TicketUpdate.Ticket = Some ticket, TicketUpdate.NotifyAll = None,
                                 TicketUpdate.MultipleWatchers = []\<rparr>\<rparr> = Inr buf \<and>
         RoundTrip (s sv) ''PUT'' (basePath sv @ ''/'' @ Itoa (Ticket.Number ticket) @ ''.json'')
           (Some buf) = Inr resp \<and>
         CheckResponse (s sv) resp StatusOK = None)) \<and>
   tickets_Update
      (lib\<lparr>decode_ticketResponse := ticket_dec, decode_ticketsResponse := tickets_dec\<rparr>) sv ticket =
      tickets_Update lib sv ticket"
proof -
  have b1: "(bins_Update lib sv bin = None \<longleftrightarrow>
      (\<exists>buf resp.
         encode_binRequest lib
           \<lparr>binRequest.Bin = BinUpdate_view \<lparr>BinUpdate.Default = Bin.Default bin, BinUpdate.Name = Bin.Name bin, BinUpdate.Query = Bin.Query bin\<rparr>\<rparr> = Inr buf \<and>
         RoundTrip (s sv) ''PUT'' (basePath sv @ ''/'' @ Itoa (Bin.ID bin) @ ''.json'') (Some buf) =
           Inr resp \<and>
         CheckResponse (s sv) resp StatusOK = None))"
    by (auto simp: bins_Update_def split: sum.splits)
  have b2: "(Bin.Default bin = Bin.Default bin_b \<and> Bin.Name bin = Bin.Name bin_b \<and> Bin.Query bin = Bin.Query bin_b \<and> Bin.ID bin = Bin.ID bin_b \<longrightarrow>
      bins_Update lib sv bin = bins_Update lib sv bin_b)"
    by (auto simp: bins_Update_def cong: sum.case_cong)
  have b3: "bins_Update
      (lib\<lparr>decode_binResponse := bin_dec, decode_binsResponse := bins_dec\<rparr>) sv bin =
      bins_Update lib sv bin"
    by (simp add: bins_Update_def)
  have p1: "(projects_Update lib sv project = None \<longleftrightarrow>
      (\<exists>buf resp.
         encode_projectRequest lib
           \<lparr>projectRequest.Project = ProjectUpdate_view \<lparr>ProjectUpdate.Archived = Project.Archived project, ProjectUpdate.Name = Project.Name project, ProjectUpdate.Public = Project.Public project\<rparr>\<rparr> = Inr buf \<and>
         RoundTrip (s sv) ''PUT'' (basePath sv @ ''/'' @ Itoa (Project.ID project) @ ''.json'') (Some buf) =
           Inr resp \<and>
         CheckResponse (s sv) resp StatusOK = None))"
    by (auto simp: projects_Update_def split: sum.splits)
  have p2: "(Project.Archived project = Project.Archived project_b \<and> Project.Name project = Project.Name project_b \<and> Project.Public project = Project.Public project_b \<and> Project.ID project = Project.ID project_b \<longrightarrow>
      projects_Update lib sv project = projects_Update lib sv project_b)"
    by (auto simp: projects_Update_def cong: sum.case_cong)
  have p3: "projects_Update
      (lib\<lparr>decode_projectResponse := project_dec, decode_projectsResponse := projects_dec\<rparr>) sv project =
      projects_Update lib sv project"
    by (simp add: projects_Update_def)
  have m1: "(messages_Update lib sv message = None \<longleftrightarrow>
      (\<exists>buf resp.
         encode_messageRequest lib
           \<lparr>messageRequest.Message = MessageUpdate_view \<lparr>MessageUpdate.Body = Message.Body message, MessageUpdate.Title = Message.Title message\<rparr>\<rparr> = Inr buf \<and>
         RoundTrip (s sv) ''PUT'' (basePath sv @ ''/'' @ Itoa (Message.ID message) @ ''.json'') (Some buf) =
           Inr resp \<and>
         CheckResponse (s sv) resp StatusOK = None))"
    by (auto simp: messages_Update_def split: sum.splits)
  have m2: "(Message.Body message = Message.Body message_b \<and> Message.Title message = Message.Title message_b \<and> Message.ID message = Message.ID message_b \<longrightarrow>
      messages_Update lib sv message = messages_Update lib sv message_b)"
    by (auto simp: messages_Update_def cong: sum.case_cong)
  have m3: "messages_Update
      (lib\<lparr>decode_messageResponse := message_dec, decode_messagesResponse := messages_dec\<rparr>) sv message =
      messages_Update lib sv message"
    by (simp add: messages_Update_def)
  have l1: "(milestones_Update lib sv milestone = None \<longleftrightarrow>
      (\<exists>buf resp.
         encode_milestoneRequest lib
           \<lparr>milestoneRequest.Milestone = MilestoneUpdate_view \<lparr>MilestoneUpdate.Goals = Milestone.Goals milestone, MilestoneUpdate.Title = Milestone.Title milestone, MilestoneUpdate.DueOn = Milestone.DueOn milestone\<rparr>\<rparr> = Inr buf \<and>
         RoundTrip (s sv) ''PUT'' (basePath sv @ ''/'' @ Itoa (Milestone.ID milestone) @ ''.json'') (Some buf) =
           Inr resp \<and>
         CheckResponse (s sv) resp StatusOK = None))"
    by (auto simp: milestones_Update_def split: sum.splits)
  have l2: "(Milestone.Goals milestone = Milestone.Goals milestone_b \<and> Milestone.Title milestone = Milestone.Title milestone_b \<and> Milestone.DueOn milestone = Milestone.DueOn milestone_b \<and> Milestone.ID milestone = Milestone.ID milestone_b \<longrightarrow>
      milestones_Update lib sv milestone = milestones_Update lib sv milestone_b)"
    by (auto simp: milestones_Update_def cong: sum.case_cong)
  have l3: "milestones_Update
      (lib\<lparr>decode_milestoneResponse := milestone_dec, decode_milestonesResponse := milestones_dec\<rparr>) sv milestone =
      milestones_Update lib sv milestone"
    by (simp add: milestones_Update_def)
  have t1: "(tickets_Update lib sv ticket = None \<longleftrightarrow>
      (\<exists>buf resp.
         encode_ticketRequest lib
           \<lparr>ticketRequest.Ticket =
              TicketUpdate_view \<lparr>TicketUpdate.Ticket = Some ticket, TicketUpdate.NotifyAll = None,
                                 TicketUpdate.MultipleWatchers = []\<rparr>\<rparr> = Inr buf \<and>
         RoundTrip (s sv) ''PUT'' (basePath sv @ ''/'' @ Itoa (Ticket.Number ticket) @ ''.json'')
           (Some buf) = Inr resp \<and>
         CheckResponse (s sv) resp StatusOK = None))"
    by (auto simp: tickets_Update_def split: sum.splits)
  have t3: "tickets_Update
      (lib\<lparr>decode_ticketResponse := ticket_dec, decode_ticketsResponse := tickets_dec\<rparr>) sv ticket =
      tickets_Update lib sv ticket"
    by (simp add: tickets_Update_def)
  from b1 b2 b3 p1 p2 p3 m1 m2 m3 l1 l2 l3 t1 t3 show ?thesis by blast
qed

theorem Update_sends_update_view_witness:
  "bins_Update example_lib example_Service (Bin_zero\<lparr>Bin.ID := 7, Bin.Name := ''Inbox''\<rparr>) = None \<and>
   bins_Update example_lib example_Service
     (Bin_zero\<lparr>Bin.ID := 7, Bin.Name := ''Inbox'', Bin.TicketsCount := 12\<rparr>) = None \<and>
   projects_Update example_lib example_Service (Project_zero\<lparr>Project.ID := 5\<rparr>) = None \<and>
   projects_Update example_lib example_Service
     (Project_zero\<lparr>Project.ID := 5, Project.Hidden := True\<rparr>) = None \<and>
   messages_Update example_lib example_Service (Message_zero\<lparr>Message.ID := 9\<rparr>) = None \<and>
   messages_Update example_lib example_Service
     (Message_zero\<lparr>Message.ID := 9, Message.Token := ''x''\<rparr>) = None \<and>
   milestones_Update example_lib example_Service (Milestone_zero\<lparr>Milestone.ID := 3\<rparr>) = None \<and>
   milestones_Update example_lib example_Service
     (Milestone_zero\<lparr>Milestone.ID := 3, Milestone.Position := 4\<rparr>) = None \<and>
   tickets_Update example_lib example_Service (Ticket_zero\<lparr>Ticket.Number := 2\<rparr>) = None"
proof -
  have e: "encode_binRequest example_lib x1 = Inr ''{}''"
    "encode_projectRequest example_lib x2 = Inr ''{}''"
    "encode_messageRequest example_lib x3 = Inr ''{}''"
    "encode_milestoneRequest example_lib x4 = Inr ''{}''"
    "encode_ticketRequest example_lib x5 = Inr ''{}''" for x1 x2 x3 x4 x5
    by (simp_all add: example_lib_def)
  have r: "RoundTrip (s example_Service) ''PUT'' path (Some buf) =
      Inr \<lparr>StatusCode = 200, Response.Body = (if path = ''/p.json'' then example_payload else path)\<rparr>"
    "CheckResponse (s example_Service) \<lparr>StatusCode = 200, Response.Body = bd\<rparr> StatusOK = None"
    for path buf bd
    by (simp_all add: example_Service_def StatusOK_def)
  have z: "Bin.Default Bin_zero = False" "Bin.Query Bin_zero = []"
    "Project.Archived Project_zero = False" "Project.Name Project_zero = []"
    "Project.Public Project_zero = False" "Message.Body Message_zero = []"
    "Message.Title Message_zero = []" "Milestone.Goals Milestone_zero = []"
    "Milestone.Title Milestone_zero = []" "Milestone.DueOn Milestone_zero = None"
    by (simp_all add: Bin_zero_def Project_zero_def Message_zero_def Milestone_zero_def)
  from Update_sends_update_view [where lib = example_lib and sv = example_Service
      and bin = "Bin_zero\<lparr>Bin.ID := 7, Bin.Name := ''Inbox''\<rparr>"
      and bin_b = "Bin_zero\<lparr>Bin.ID := 7, Bin.Name := ''Inbox'', Bin.TicketsCount := 12\<rparr>"
      and project = "Project_zero\<lparr>Project.ID := 5\<rparr>"
      and project_b = "Project_zero\<lparr>Project.ID := 5, Project.Hidden := True\<rparr>"
      and message = "Message_zero\<lparr>Message.ID := 9\<rparr>"
      and message_b = "Message_zero\<lparr>Message.ID := 9, Message.Token := ''x''\<rparr>"
      and milestone = "Milestone_zero\<lparr>Milestone.ID := 3\<rparr>"
      and milestone_b = "Milestone_zero\<lparr>Milestone.ID := 3, Milestone.Position := 4\<rparr>"
      and ticket = "Ticket_zero\<lparr>Ticket.Number := 2\<rparr>"
      and bin_dec = "decode_binResponse example_lib"
      and bins_dec = "decode_binsResponse example_lib"
      and project_dec = "decode_projectResponse example_lib"
      and projects_dec = "decode_projectsResponse example_lib"
      and message_dec = "decode_messageResponse example_lib"
      and messages_dec = "decode_messagesResponse example_lib"
      and milestone_dec = "decode_milestoneResponse example_lib"
      and milestones_dec = "decode_milestonesResponse example_lib"
      and ticket_dec = "decode_ticketResponse example_lib"
      and tickets_dec = "decode_ticketsResponse example_lib"]
  show ?thesis by (auto simp: e r z)
qed

section \<open>File names of the export\<close>





















end
